theory Spec2Isabelle
  imports Complex_Main "HOL-Library.AList"
begin

section \<open>Python strings\<close>

text \<open>
  A Python \<open>str\<close> that the program takes apart is a list of Unicode code points, each an
  integer (the \<open>ord\<close> of the character). Two tables of the Unicode database decide what
  \<open>strip\<close> and \<open>upper\<close> do: the whitespace class, and the upper-case mapping, which
  sends a code point to one code point or to several. The embedding does not fix them: they are the fields of a
  record that every function on text takes, so that a statement proved for all such
  records holds for the tables of Python. A text that the program only stores and compares
  (a user identifier, a topic, a difficulty, a time stamp) is a \<^typ>\<open>string\<close>, which
  stands for its encoding.
\<close>

datatype error = IndexError | ZeroDivisionError | OverflowError

type_synonym pystr = "int list"

definition str :: "string \<Rightarrow> pystr" where
  \<comment> \<open>an ASCII literal of the source\<close>
  "str s = map of_char s"

record tables =
  isspace :: "int \<Rightarrow> bool"
  upper :: "int \<Rightarrow> pystr"

definition ascii_upper :: "int \<Rightarrow> int" where
  "ascii_upper c = (if 97 \<le> c \<and> c \<le> 122 then c - 32 else c)"

definition latin1_upper :: "int \<Rightarrow> pystr" where
  \<comment> \<open>\<open>chr(c).upper()\<close> for a code point below 256: a to z, the letters U+00E0 to U+00FE
      but the division sign, the micro sign (to the Greek capital mu), the sharp s (to SS)
      and the y with diaeresis (to U+0178)\<close>
  "latin1_upper c =
     (if 97 \<le> c \<and> c \<le> 122 then [c - 32]
      else if c = 181 then [924]
      else if c = 223 then [83, 83]
      else if (224 \<le> c \<and> c \<le> 246) \<or> (248 \<le> c \<and> c \<le> 254) then [c - 32]
      else if c = 255 then [376]
      else [c])"

definition latin1_tables :: tables where
  \<comment> \<open>the whitespace class of \<open>str.isspace\<close> (9 to 13, 28 to 32, U+0085, U+00A0, U+1680,
      U+2000 to U+200A, U+2028, U+2029, U+202F, U+205F, U+3000) and the case mapping of
      the code points below 256, to run the definitions on such inputs\<close>
  "latin1_tables =
     \<lparr>isspace = (\<lambda>c. (9 \<le> c \<and> c \<le> 13) \<or> (28 \<le> c \<and> c \<le> 32) \<or> c = 133 \<or> c = 160 \<or>
                     c = 5760 \<or> (8192 \<le> c \<and> c \<le> 8202) \<or> c = 8232 \<or> c = 8233 \<or>
                     c = 8239 \<or> c = 8287 \<or> c = 12288),
      upper = latin1_upper\<rparr>"

definition py_strip :: "tables \<Rightarrow> pystr \<Rightarrow> pystr" where
  \<comment> \<open>\<open>s.strip()\<close>\<close>
  "py_strip tx s = rev (dropWhile (isspace tx) (rev (dropWhile (isspace tx) s)))"

definition py_upper :: "tables \<Rightarrow> pystr \<Rightarrow> pystr" where
  \<comment> \<open>\<open>s.upper()\<close>: the mapping of each code point, in order\<close>
  "py_upper tx s = concat (map (upper tx) s)"

fun startswith :: "pystr \<Rightarrow> pystr \<Rightarrow> bool" where
  \<comment> \<open>\<open>s.startswith(p)\<close>, the prefix second\<close>
  "startswith s [] = True"
| "startswith [] (p # ps) = False"
| "startswith (c # cs) (p # ps) = (c = p \<and> startswith cs ps)"

fun partition_sep :: "pystr \<Rightarrow> pystr \<Rightarrow> (pystr \<times> pystr) option" where
  \<comment> \<open>the text before and after the leftmost occurrence of \<open>sep\<close>, if there is one\<close>
  "partition_sep sep [] = None"
| "partition_sep sep (c # cs) =
     (if startswith (c # cs) sep then Some ([], drop (length sep) (c # cs))
      else (case partition_sep sep cs of
              None \<Rightarrow> None
            | Some (a, b) \<Rightarrow> Some (c # a, b)))"

definition py_in :: "pystr \<Rightarrow> pystr \<Rightarrow> bool" where
  \<comment> \<open>\<open>sep in s\<close> for a non-empty \<open>sep\<close>, the separator first\<close>
  "py_in sep s = (partition_sep sep s \<noteq> None)"

function py_split :: "pystr \<Rightarrow> pystr \<Rightarrow> pystr list" where
  \<comment> \<open>\<open>s.split(sep)\<close> for a non-empty separator, the separator first. Python raises
      ValueError on an empty separator; the program only splits on constants.\<close>
  "py_split sep s =
     (if sep = [] then [s]
      else (case partition_sep sep s of
              None \<Rightarrow> [s]
            | Some (a, b) \<Rightarrow> a # py_split sep b))"
  by pat_completeness auto
termination
proof (relation "measure (\<lambda>(sep, s). length s)")
  show "wf (measure (\<lambda>(sep :: pystr, s :: pystr). length s))" by simp
next
  fix sep s :: pystr and x2 :: "pystr \<times> pystr" and a b :: pystr
  assume sep: "sep \<noteq> []" and p: "partition_sep sep s = Some x2" and x: "(a, b) = x2"
  have "partition_sep sep u = Some (c, d) \<Longrightarrow> length d < length u" for u c d
  proof (induction u arbitrary: c d)
    case Nil
    then show ?case by simp
  next
    case (Cons e u)
    show ?case
    proof (cases "startswith (e # u) sep")
      case True
      with Cons.prems sep show ?thesis by (cases sep) auto
    next
      case False
      with Cons.prems obtain c' where "partition_sep sep u = Some (c', d)"
        by (auto split: option.splits)
      from Cons.IH [OF this] show ?thesis by simp
    qed
  qed
  with p x show "((sep, b), (sep, s)) \<in> measure (\<lambda>(sep, s). length s)" by auto
qed

declare py_split.simps [simp del]

definition py_split1 :: "pystr \<Rightarrow> pystr \<Rightarrow> pystr list" where
  \<comment> \<open>\<open>s.split(sep, 1)\<close>: at most one split\<close>
  "py_split1 sep s = (case partition_sep sep s of None \<Rightarrow> [s] | Some (a, b) \<Rightarrow> [a, b])"

definition py_index :: "'a list \<Rightarrow> nat \<Rightarrow> error + 'a" where
  \<comment> \<open>\<open>xs[i]\<close> for a non-negative constant index\<close>
  "py_index xs i = (if i < length xs then Inr (xs ! i) else Inl IndexError)"

definition NL :: pystr where
  "NL = [10]"

definition join_lines :: "string list \<Rightarrow> pystr" where
  \<comment> \<open>\<open>'\n'.join(ls)\<close> of ASCII lines, used to write inputs down\<close>
  "join_lines ls =
     concat (case ls of [] \<Rightarrow> [] | l # rest \<Rightarrow> str l # map (\<lambda>x. NL @ str x) rest)"

section \<open>The quiz parser\<close>

record quiz_question =
  question :: pystr
  options :: "(pystr \<times> pystr) list"
  correct :: pystr
  explanation :: pystr

text \<open>
  The \<open>options\<close> dictionary is an association list in insertion order;
  \<^const>\<open>AList.update\<close> replaces the value of a key that is present and appends a new key,
  as an assignment to a Python dictionary does.
\<close>

definition block_lines :: "tables \<Rightarrow> pystr \<Rightarrow> pystr list" where
  \<comment> \<open>\<open>[l.strip() for l in block.strip().split('\n') if l.strip()]\<close>\<close>
  "block_lines tx block =
     map (py_strip tx) (filter (\<lambda>l. py_strip tx l \<noteq> []) (py_split NL (py_strip tx block)))"

definition is_question_line :: "pystr \<Rightarrow> bool" where
  "is_question_line line = (startswith line (str ''Q'') \<or> startswith line (str ''Question''))"

definition is_option_line :: "pystr \<Rightarrow> bool" where
  "is_option_line line =
     (startswith line (str ''A)'') \<or> startswith line (str ''B)'') \<or>
      startswith line (str ''C)'') \<or> startswith line (str ''D)''))"

fun question_text :: "tables \<Rightarrow> pystr list \<Rightarrow> error + pystr" where
  \<comment> \<open>the first loop over the lines of a block, left at the first question line\<close>
  "question_text tx [] = Inr []"
| "question_text tx (line # ls) =
     (if is_question_line line then
        (if py_in (str '':'') line then
           (case py_index (py_split1 (str '':'') line) 1 of
              Inl e \<Rightarrow> Inl e
            | Inr t \<Rightarrow> Inr (py_strip tx t))
         else Inr line)
      else question_text tx ls)"

fun scan_lines :: "tables \<Rightarrow> pystr list \<Rightarrow> quiz_question \<Rightarrow> error + quiz_question" where
  \<comment> \<open>the second loop: options, correct answer and explanation\<close>
  "scan_lines tx [] q = Inr q"
| "scan_lines tx (line # ls) q =
     (if is_option_line line then
        scan_lines tx ls
          (q\<lparr>options := AList.update (take 1 line) (py_strip tx (drop 2 line)) (options q)\<rparr>)
      else if startswith line (str ''Correct:'') then
        (case py_index (py_split (str '':'') line) 1 of
           Inl e \<Rightarrow> Inl e
         | Inr t \<Rightarrow>
            (case py_index (py_strip tx t) 0 of
               Inl e \<Rightarrow> Inl e
             | Inr c \<Rightarrow> scan_lines tx ls (q\<lparr>correct := py_upper tx [c]\<rparr>)))
      else if startswith line (str ''Explanation:'') then
        (case py_index (py_split1 (str '':'') line) 1 of
           Inl e \<Rightarrow> Inl e
         | Inr t \<Rightarrow> scan_lines tx ls (q\<lparr>explanation := py_strip tx t\<rparr>))
      else scan_lines tx ls q)"

definition parse_lines :: "tables \<Rightarrow> pystr list \<Rightarrow> error + quiz_question" where
  "parse_lines tx lines =
     (case question_text tx lines of
        Inl e \<Rightarrow> Inl e
      | Inr t \<Rightarrow>
         scan_lines tx lines \<lparr>question = t, options = [], correct = [], explanation = []\<rparr>)"

definition has_required :: "quiz_question \<Rightarrow> bool" where
  \<comment> \<open>\<open>question["question"] and question["options"] and question["correct"]\<close>\<close>
  "has_required q = (question q \<noteq> [] \<and> options q \<noteq> [] \<and> correct q \<noteq> [])"

fun parse_blocks :: "tables \<Rightarrow> pystr list \<Rightarrow> error + quiz_question list" where
  \<comment> \<open>the loop over the blocks; an exception in a block ends the whole call\<close>
  "parse_blocks tx [] = Inr []"
| "parse_blocks tx (block # bs) =
     (if py_strip tx block = [] then parse_blocks tx bs
      else if length (block_lines tx block) < 6 then parse_blocks tx bs
      else (case parse_lines tx (block_lines tx block) of
              Inl e \<Rightarrow> Inl e
            | Inr q \<Rightarrow>
               (case parse_blocks tx bs of
                  Inl e \<Rightarrow> Inl e
                | Inr qs \<Rightarrow> Inr (if has_required q then q # qs else qs))))"

definition parse_quiz :: "tables \<Rightarrow> pystr \<Rightarrow> error + quiz_question list" where
  \<comment> \<open>\<open>QuizAgent._parse_quiz\<close>\<close>
  "parse_quiz tx quiz_text = parse_blocks tx (py_split (str ''---'') quiz_text)"

section \<open>Python floats\<close>

text \<open>
  Percentages are Python floats. Their arithmetic is not fixed by the embedding: the
  operations the program applies to them are the fields of a record that every numeric
  function takes, so that a statement proved for all such records holds for the rounding
  of IEEE doubles, whatever it is. \<open>int_truediv\<close> is \<open>a / b\<close> on two integers with a
  divisor other than zero, \<open>None\<close> where the quotient is beyond the float range and
  Python raises OverflowError (the zero divisor is a branch of \<open>py_truediv\<close> below),
  \<open>times_int\<close> is
  \<open>x * n\<close>, \<open>float_sum\<close> is \<open>sum(xs)\<close>, \<open>div_int\<close> is \<open>x / n\<close> for \<open>n\<close> other
  than zero, \<open>ge_int\<close> is \<open>x >= n\<close> and \<open>float_of_int\<close> the number \<open>n\<close> itself.
\<close>

record 'f arith =
  int_truediv :: "int \<Rightarrow> int \<Rightarrow> 'f option"
  times_int :: "'f \<Rightarrow> int \<Rightarrow> 'f"
  float_sum :: "'f list \<Rightarrow> 'f"
  div_int :: "'f \<Rightarrow> int \<Rightarrow> 'f"
  ge_int :: "'f \<Rightarrow> int \<Rightarrow> bool"
  float_of_int :: "int \<Rightarrow> 'f"

definition exact_arith :: "rat arith" where
  \<comment> \<open>arithmetic without rounding, to run the definitions on inputs where doubles are exact\<close>
  "exact_arith =
     \<lparr>int_truediv = (\<lambda>a b. Some (rat_of_int a / rat_of_int b)),
      times_int = (\<lambda>x n. x * rat_of_int n),
      float_sum = sum_list,
      div_int = (\<lambda>x n. x / rat_of_int n),
      ge_int = (\<lambda>x n. rat_of_int n \<le> x),
      float_of_int = rat_of_int\<rparr>"

definition py_truediv :: "'f arith \<Rightarrow> int \<Rightarrow> int \<Rightarrow> error + 'f" where
  \<comment> \<open>\<open>a / b\<close> on two integers\<close>
  "py_truediv ar a b =
     (if b = 0 then Inl ZeroDivisionError
      else (case int_truediv ar a b of None \<Rightarrow> Inl OverflowError | Some r \<Rightarrow> Inr r))"

definition py_slice_from :: "'a list \<Rightarrow> int \<Rightarrow> 'a list" where
  \<comment> \<open>\<open>xs[k:]\<close>: a negative start counts from the end, and the start is clipped to the list\<close>
  "py_slice_from xs k =
     drop (nat (if k < 0 then max (int (length xs) + k) 0 else min k (int (length xs)))) xs"

section \<open>The quiz evaluator\<close>

record evaluation =
  ev_correct :: bool
  ev_explanation :: pystr
  ev_correct_answer :: pystr

record question_result =
  question_num :: int
  result_question :: pystr
  user_answer :: pystr
  correct_answer :: pystr
  is_correct :: bool
  result_explanation :: pystr

record 'f quiz_result =
  result_score :: int
  result_total :: int
  result_percentage :: 'f
  results :: "question_result list"

definition evaluate_answer :: "tables \<Rightarrow> quiz_question \<Rightarrow> pystr \<Rightarrow> evaluation" where
  \<comment> \<open>\<open>QuizAgent.evaluate_answer\<close>\<close>
  "evaluate_answer tx q answer =
     \<lparr>ev_correct = (py_upper tx answer = py_upper tx (correct q)),
      ev_explanation = explanation q,
      ev_correct_answer = correct q\<rparr>"

fun grade :: "tables \<Rightarrow> nat \<Rightarrow> quiz_question list \<Rightarrow> (int \<rightharpoonup> pystr) \<Rightarrow> int
    \<Rightarrow> question_result list \<Rightarrow> int \<times> question_result list" where
  \<comment> \<open>the loop of \<open>evaluate_quiz\<close> from index \<open>i\<close>, with the score and the results so far\<close>
  "grade tx i [] user_answers sc rs = (sc, rs)"
| "grade tx i (q # qs) user_answers sc rs =
     (let answer = (case user_answers (int i) of None \<Rightarrow> [] | Some a \<Rightarrow> a);
          ev = evaluate_answer tx q answer
      in grade tx (Suc i) qs user_answers (if ev_correct ev then sc + 1 else sc)
           (rs @ [\<lparr>question_num = int i + 1,
                    result_question = question q,
                    user_answer = answer,
                    correct_answer = ev_correct_answer ev,
                    is_correct = ev_correct ev,
                    result_explanation = ev_explanation ev\<rparr>]))"

definition evaluate_quiz :: "tables \<Rightarrow> 'f arith \<Rightarrow> quiz_question list \<Rightarrow> (int \<rightharpoonup> pystr)
    \<Rightarrow> error + 'f quiz_result" where
  \<comment> \<open>\<open>QuizAgent.evaluate_quiz\<close>\<close>
  "evaluate_quiz tx ar questions user_answers =
     (case grade tx 0 questions user_answers 0 [] of (sc, rs) \<Rightarrow>
        (case (if questions \<noteq> [] then
                 (case py_truediv ar sc (int (length questions)) of
                    Inl e \<Rightarrow> Inl e
                  | Inr r \<Rightarrow> Inr (times_int ar r 100))
               else Inr (float_of_int ar 0)) of
           Inl e \<Rightarrow> Inl e
         | Inr pct \<Rightarrow>
            Inr \<lparr>result_score = sc, result_total = int (length questions),
                 result_percentage = pct, results = rs\<rparr>))"

section \<open>The progress store\<close>

record 'f quiz_record =
  topic :: string
  score :: int
  total :: int
  percentage :: 'f
  timestamp :: string

record 'f progress =
  topics_studied :: "string list"
  quiz_scores :: "'f quiz_record list"
  current_difficulty :: string
  total_time :: int

text \<open>
  The store is the progress file: \<open>None\<close> while the file does not exist, otherwise the
  JSON object it holds, a dictionary from user identifiers to progress records. A file
  that \<open>json.load\<close> rejects, or whose records lack a field, is not a state of this model,
  and the data directory is not modelled.
\<close>

type_synonym 'f store = "(string \<rightharpoonup> 'f progress) option"

definition default_progress :: "'f progress" where
  "default_progress =
     \<lparr>topics_studied = [], quiz_scores = [], current_difficulty = ''beginner'', total_time = 0\<rparr>"

definition file_data :: "'f store \<Rightarrow> (string \<rightharpoonup> 'f progress)" where
  "file_data st = (case st of None \<Rightarrow> Map.empty | Some d \<Rightarrow> d)"

definition load_user_progress :: "string \<Rightarrow> 'f store \<Rightarrow> 'f progress \<times> 'f store" where
  \<comment> \<open>\<open>tools.load_user_progress\<close>: a missing file is first written as the empty object\<close>
  "load_user_progress user_id st =
     (case file_data st user_id of
        None \<Rightarrow> (default_progress, Some (file_data st))
      | Some p \<Rightarrow> (p, Some (file_data st)))"

definition save_user_progress :: "string \<Rightarrow> 'f progress \<Rightarrow> 'f store \<Rightarrow> 'f store" where
  \<comment> \<open>\<open>tools.save_user_progress\<close>\<close>
  "save_user_progress user_id progress_data st = Some ((file_data st)(user_id \<mapsto> progress_data))"

section \<open>The difficulty policy and the score update\<close>

definition calculate_difficulty :: "'f arith \<Rightarrow> 'f quiz_record list \<Rightarrow> int \<Rightarrow> error + string" where
  \<comment> \<open>\<open>tools.calculate_difficulty\<close>\<close>
  "calculate_difficulty ar scores recent_count =
     (if scores = [] then Inr ''beginner''
      else
        (let recent_scores = py_slice_from scores (- recent_count) in
         if length recent_scores = 0 then Inl ZeroDivisionError
         else
           (let avg_percentage =
                  div_int ar (float_sum ar (map percentage recent_scores)) (int (length recent_scores))
            in if ge_int ar avg_percentage 85 then Inr ''advanced''
               else if ge_int ar avg_percentage 70 then Inr ''intermediate''
               else Inr ''beginner'')))"

definition RECENT_SCORES_COUNT :: int where
  \<comment> \<open>\<open>Config.RECENT_SCORES_COUNT\<close>\<close>
  "RECENT_SCORES_COUNT = 3"

definition add_score :: "'f arith \<Rightarrow> string \<Rightarrow> string \<Rightarrow> int \<Rightarrow> int \<Rightarrow> 'f progress
    \<Rightarrow> error + 'f progress" where
  \<comment> \<open>the lines both update functions share: append the record (the division comes first
      and may raise), then add the topic if it is new\<close>
  "add_score ar now tp sc tot progress =
     (case py_truediv ar sc tot of
        Inl e \<Rightarrow> Inl e
      | Inr r \<Rightarrow>
         (let p1 = progress\<lparr>quiz_scores := quiz_scores progress @
                     [\<lparr>topic = tp, score = sc, total = tot,
                       percentage = times_int ar r 100, timestamp = now\<rparr>]\<rparr>
          in Inr (if tp \<notin> set (topics_studied p1)
                  then p1\<lparr>topics_studied := topics_studied p1 @ [tp]\<rparr> else p1)))"

definition update_quiz_score :: "'f arith \<Rightarrow> string \<Rightarrow> string \<Rightarrow> string \<Rightarrow> int \<Rightarrow> int \<Rightarrow> 'f store
    \<Rightarrow> (error + 'f progress) \<times> 'f store" where
  \<comment> \<open>\<open>tools.update_quiz_score\<close>; \<open>now\<close> is the text of \<open>datetime.now().isoformat()\<close>.
      The window is the default of \<open>calculate_difficulty\<close>.\<close>
  "update_quiz_score ar now user_id tp sc tot st =
     (case load_user_progress user_id st of (progress, st1) \<Rightarrow>
        (case add_score ar now tp sc tot progress of
           Inl e \<Rightarrow> (Inl e, st1)
         | Inr p2 \<Rightarrow>
            (case calculate_difficulty ar (quiz_scores p2) 3 of
               Inl e \<Rightarrow> (Inl e, st1)
             | Inr d \<Rightarrow>
                (let p3 = p2\<lparr>current_difficulty := d\<rparr>
                 in (Inr p3, save_user_progress user_id p3 st1)))))"

definition ensure_storage :: "'f store \<Rightarrow> 'f store" where
  \<comment> \<open>\<open>PersonalisationEngine._ensure_storage\<close>, run when the engine is made\<close>
  "ensure_storage st = Some (file_data st)"

definition engine_update_quiz_score :: "'f arith \<Rightarrow> string \<Rightarrow> string \<Rightarrow> string \<Rightarrow> int \<Rightarrow> int
    \<Rightarrow> 'f store \<Rightarrow> (error + 'f progress) \<times> 'f store" where
  \<comment> \<open>\<open>PersonalisationEngine.update_quiz_score\<close>, with the window of the configuration\<close>
  "engine_update_quiz_score ar now user_id tp sc tot st =
     (case load_user_progress user_id st of (progress, st1) \<Rightarrow>
        (case add_score ar now tp sc tot progress of
           Inl e \<Rightarrow> (Inl e, st1)
         | Inr p2 \<Rightarrow>
            (case calculate_difficulty ar (quiz_scores p2) RECENT_SCORES_COUNT of
               Inl e \<Rightarrow> (Inl e, st1)
             | Inr d \<Rightarrow>
                (let p3 = p2\<lparr>current_difficulty := d\<rparr>
                 in (Inr p3, save_user_progress user_id p3 st1)))))"

definition reset_progress :: "string \<Rightarrow> 'f store \<Rightarrow> 'f store" where
  \<comment> \<open>\<open>PersonalisationEngine.reset_progress\<close>\<close>
  "reset_progress user_id st =
     save_user_progress user_id
       \<lparr>topics_studied = [], quiz_scores = [], current_difficulty = ''beginner'', total_time = 0\<rparr> st"

section \<open>Notions of the specification\<close>

definition quiz_question_invariant :: "quiz_question \<Rightarrow> bool" where
  \<comment> \<open>the label is a key of the options, there are two options or more, the text is not empty\<close>
  "quiz_question_invariant q =
     (correct q \<in> fst ` set (options q) \<and> 2 \<le> length (options q) \<and> question q \<noteq> [])"

definition same_upper :: "tables \<Rightarrow> pystr \<Rightarrow> pystr \<Rightarrow> bool" where
  \<comment> \<open>equal but for case, under the case mapping: the two texts have one upper-case form\<close>
  "same_upper tx a b = (py_upper tx a = py_upper tx b)"

definition letter_pairs :: "(int \<times> int) list" where
  "letter_pairs = zip (str ''abcdefghijklmnopqrstuvwxyz'') (str ''ABCDEFGHIJKLMNOPQRSTUVWXYZ'')"

definition same_letter :: "int \<Rightarrow> int \<Rightarrow> bool" where
  "same_letter x y = (x = y \<or> (x, y) \<in> set letter_pairs \<or> (y, x) \<in> set letter_pairs)"

definition eq_ignore_case :: "pystr \<Rightarrow> pystr \<Rightarrow> bool" where
  \<comment> \<open>equal but for the case of the letters a to z\<close>
  "eq_ignore_case a b = list_all2 same_letter a b"

definition is_ascii :: "pystr \<Rightarrow> bool" where
  "is_ascii s = list_all (\<lambda>c. 0 \<le> c \<and> c < 128) s"

definition ascii_case :: "tables \<Rightarrow> bool" where
  \<comment> \<open>below 128 the case mapping only sends a to z to A to Z, as Python's does\<close>
  "ascii_case tx = list_all (\<lambda>c. upper tx c = [ascii_upper c]) [0..127]"

definition answer_of :: "(int \<rightharpoonup> pystr) \<Rightarrow> nat \<Rightarrow> pystr" where
  \<comment> \<open>\<open>user_answers.get(i, "")\<close>\<close>
  "answer_of user_answers i = (case user_answers (int i) of None \<Rightarrow> [] | Some a \<Rightarrow> a)"

definition result_entry :: "tables \<Rightarrow> (int \<rightharpoonup> pystr) \<Rightarrow> nat \<Rightarrow> quiz_question \<Rightarrow> question_result" where
  \<comment> \<open>the entry that the loop of \<open>evaluate_quiz\<close> appends for the question at index \<open>i\<close>\<close>
  "result_entry tx user_answers i q =
     \<lparr>question_num = int i + 1, result_question = question q,
      user_answer = answer_of user_answers i, correct_answer = correct q,
      is_correct = (py_upper tx (answer_of user_answers i) = py_upper tx (correct q)),
      result_explanation = explanation q\<rparr>"

definition last_n :: "nat \<Rightarrow> 'a list \<Rightarrow> 'a list" where
  \<comment> \<open>the last \<open>n\<close> elements\<close>
  "last_n n xs = drop (length xs - n) xs"

definition difficulty_policy :: "'f arith \<Rightarrow> 'f quiz_record list \<Rightarrow> nat \<Rightarrow> string" where
  \<comment> \<open>the policy in the words of the specification: the mean over the last
      \<open>min w (length H)\<close> records against the two thresholds\<close>
  "difficulty_policy ar H w =
     (if H = [] then ''beginner''
      else
        (let recent = last_n (min w (length H)) H;
             mean = div_int ar (float_sum ar (map percentage recent)) (int (length recent))
         in if ge_int ar mean 85 then ''advanced''
            else if ge_int ar mean 70 then ''intermediate''
            else ''beginner''))"

subsection \<open>Sample inputs\<close>

definition pct :: "rat \<Rightarrow> rat quiz_record" where
  \<comment> \<open>a record of the history with the given percentage\<close>
  "pct x = \<lparr>topic = ''t'', score = 0, total = 1, percentage = x, timestamp = []\<rparr>"

definition full_block :: pystr where
  "full_block = join_lines
     [''Q1: What is 2 + 2?'', ''A) 3'', ''B) 4'', ''C) 5'', ''D) 6'', ''Correct: b'',
      ''Explanation: sum'']"

definition full_question :: quiz_question where
  "full_question =
     \<lparr>question = str ''What is 2 + 2?'',
      options = [(str ''A'', str ''3''), (str ''B'', str ''4''), (str ''C'', str ''5''),
                 (str ''D'', str ''6'')],
      correct = str ''B'', explanation = str ''sum''\<rparr>"

definition stray_block :: pystr where
  \<comment> \<open>six lines, one option, and a label that is not an option\<close>
  "stray_block = join_lines
     [''Q1: x'', ''A) a'', ''Correct: Z'', ''Explanation: e'', ''note 1'', ''note 2'']"

definition stray_question :: quiz_question where
  "stray_question =
     \<lparr>question = str ''x'', options = [(str ''A'', str ''a'')], correct = str ''Z'',
      explanation = str ''e''\<rparr>"

definition empty_correct_block :: pystr where
  \<comment> \<open>a well-formed block but for the correct-answer line, which ends at its colon\<close>
  "empty_correct_block = join_lines
     [''Q1: x'', ''A) a'', ''B) b'', ''C) c'', ''D) d'', ''Correct:'', ''Explanation: e'']"

definition short_block :: pystr where
  \<comment> \<open>one question line, two option lines, one correct-answer line\<close>
  "short_block = join_lines [''Q1: x'', ''A) a'', ''B) b'', ''Correct: A'']"

definition maths_progress :: "int \<Rightarrow> int \<Rightarrow> rat \<Rightarrow> string \<Rightarrow> rat progress" where
  \<comment> \<open>the record of a user after one quiz on maths\<close>
  "maths_progress sc tot p d =
     \<lparr>topics_studied = [''maths''],
      quiz_scores = [\<lparr>topic = ''maths'', score = sc, total = tot, percentage = p, timestamp = ''t0''\<rparr>],
      current_difficulty = d, total_time = 0\<rparr>"

section \<open>Facts about the string operations\<close>

lemma split1_index:
  "py_in sep l \<Longrightarrow> \<exists>t. py_index (py_split1 sep l) 1 = Inr t"
  by (auto simp: py_in_def py_split1_def py_index_def)

lemma letter_pairs_range: "letter_pairs = map (\<lambda>c. (c, c - 32)) [97..122]"
  unfolding letter_pairs_def by code_simp

lemma letter_pairs_iff: "(x, y) \<in> set letter_pairs \<longleftrightarrow> 97 \<le> x \<and> x \<le> 122 \<and> y = x - 32"
  unfolding letter_pairs_range set_map set_upto by auto

lemma ascii_upper_same_letter: "ascii_upper x = ascii_upper y \<longleftrightarrow> same_letter x y"
  by (auto simp: ascii_upper_def same_letter_def letter_pairs_iff)

lemma ascii_case_upper:
  "ascii_case tx \<Longrightarrow> is_ascii s \<Longrightarrow> py_upper tx s = map ascii_upper s"
proof (induction s)
  case Nil
  show ?case by (simp add: py_upper_def)
next
  case (Cons c s)
  from Cons.prems(2) have "0 \<le> c \<and> c \<le> 127" and s: "is_ascii s"
    by (auto simp: is_ascii_def)
  then have c: "c \<in> set [0..127]" by (simp only: set_upto atLeastAtMost_iff)
  from Cons.prems(1) c have "upper tx c = [ascii_upper c]"
    unfolding ascii_case_def list_all_iff by blast
  with Cons.IH [OF Cons.prems(1) s] show ?case by (simp add: py_upper_def)
qed

lemma same_upper_ascii:
  assumes "ascii_case tx" "is_ascii a" "is_ascii b"
  shows "same_upper tx a b \<longleftrightarrow> eq_ignore_case a b"
proof -
  have "map ascii_upper a = map ascii_upper b \<longleftrightarrow>
      list_all2 (\<lambda>x y. ascii_upper x = ascii_upper y) a b"
    by (simp add: list.rel_eq [symmetric] list.rel_map)
  with assms show ?thesis
    by (simp add: same_upper_def ascii_case_upper eq_ignore_case_def ascii_upper_same_letter)
qed

lemma py_upper_nonempty:
  assumes "\<And>c. upper tx c \<noteq> []" and "s \<noteq> []"
  shows "py_upper tx s \<noteq> []"
  using assms by (cases s) (simp_all add: py_upper_def)

section \<open>Facts about the parser\<close>

lemma question_text_total: "\<exists>t. question_text tx ls = Inr t"
proof (induction ls)
  case Nil
  show ?case by simp
next
  case (Cons l ls)
  show ?case
  proof (cases "is_question_line l \<and> py_in (str '':'') l")
    case True
    then obtain t where "py_index (py_split1 (str '':'') l) 1 = Inr t"
      using split1_index by blast
    with True show ?thesis by simp
  next
    case False
    with Cons.IH show ?thesis by auto
  qed
qed

lemma option_line_key:
  "is_option_line l \<Longrightarrow> take 1 l \<in> {str ''A'', str ''B'', str ''C'', str ''D''}"
  by (cases l) (auto simp: is_option_line_def str_def)

lemma option_line_not_correct:
  "is_option_line l \<Longrightarrow> \<not> startswith l (str ''Correct:'')"
  by (cases l; cases "tl l") (auto simp: is_option_line_def str_def)

lemma update_keys: "fst ` set (AList.update k v al) = insert k (fst ` set al)"
  by (induction al) auto

lemma scan_lines_fields:
  "scan_lines tx ls q = Inr q' \<Longrightarrow>
     question q' = question q \<and>
     (options q' \<noteq> [] \<longleftrightarrow> options q \<noteq> [] \<or> (\<exists>l\<in>set ls. is_option_line l)) \<and>
     fst ` set (options q') \<subseteq> fst ` set (options q) \<union> {str ''A'', str ''B'', str ''C'', str ''D''} \<and>
     ((\<forall>c. upper tx c \<noteq> []) \<and> (correct q \<noteq> [] \<or> (\<exists>l\<in>set ls. startswith l (str ''Correct:''))) \<longrightarrow>
        correct q' \<noteq> [])"
proof (induction ls arbitrary: q)
  case Nil
  then show ?case by auto
next
  case (Cons l ls)
  show ?case
  proof (cases "is_option_line l")
    case True
    let ?q1 = "q\<lparr>options := AList.update (take 1 l) (py_strip tx (drop 2 l)) (options q)\<rparr>"
    from True Cons.prems have "scan_lines tx ls ?q1 = Inr q'" by simp
    from Cons.IH [OF this] True option_line_not_correct [OF True] option_line_key [OF True]
    show ?thesis
      by (auto simp: update_keys)
  next
    case no: False
    show ?thesis
    proof (cases "startswith l (str ''Correct:'')")
      case True
      with no Cons.prems obtain c
        where "scan_lines tx ls (q\<lparr>correct := py_upper tx [c]\<rparr>) = Inr q'"
        by (auto split: sum.splits)
      from Cons.IH [OF this] no True show ?thesis
        by (auto simp: py_upper_def)
    next
      case nc: False
      show ?thesis
      proof (cases "startswith l (str ''Explanation:'')")
        case True
        with no nc Cons.prems obtain t
          where "scan_lines tx ls (q\<lparr>explanation := py_strip tx t\<rparr>) = Inr q'"
          by (auto split: sum.splits)
        from Cons.IH [OF this] no nc show ?thesis by auto
      next
        case False
        with no nc Cons.prems have "scan_lines tx ls q = Inr q'" by simp
        from Cons.IH [OF this] no nc show ?thesis by auto
      qed
    qed
  qed
qed

lemma parse_lines_fields:
  assumes "parse_lines tx ls = Inr q"
  shows "question_text tx ls = Inr (question q)"
    and "options q \<noteq> [] \<longleftrightarrow> (\<exists>l\<in>set ls. is_option_line l)"
    and "fst ` set (options q) \<subseteq> {str ''A'', str ''B'', str ''C'', str ''D''}"
    and "(\<And>c. upper tx c \<noteq> []) \<Longrightarrow> (\<exists>l\<in>set ls. startswith l (str ''Correct:'')) \<Longrightarrow>
           correct q \<noteq> []"
proof -
  from assms obtain t where t: "question_text tx ls = Inr t"
    and s: "scan_lines tx ls \<lparr>question = t, options = [], correct = [], explanation = []\<rparr> = Inr q"
    by (auto simp: parse_lines_def split: sum.splits)
  from scan_lines_fields [OF s] t
  show "question_text tx ls = Inr (question q)"
    and "options q \<noteq> [] \<longleftrightarrow> (\<exists>l\<in>set ls. is_option_line l)"
    and "fst ` set (options q) \<subseteq> {str ''A'', str ''B'', str ''C'', str ''D''}"
    and "(\<And>c. upper tx c \<noteq> []) \<Longrightarrow> (\<exists>l\<in>set ls. startswith l (str ''Correct:'')) \<Longrightarrow>
           correct q \<noteq> []"
    by auto
qed

lemma parse_blocks_sound:
  "parse_blocks tx bs = Inr qs \<Longrightarrow> q \<in> set qs \<Longrightarrow>
     has_required q \<and>
     (\<exists>b\<in>set bs. 6 \<le> length (block_lines tx b) \<and> parse_lines tx (block_lines tx b) = Inr q)"
proof (induction bs arbitrary: qs)
  case Nil
  then show ?case by simp
next
  case (Cons b bs)
  show ?case
  proof (cases "py_strip tx b = [] \<or> length (block_lines tx b) < 6")
    case True
    with Cons.prems have "parse_blocks tx bs = Inr qs" by (auto split: if_splits)
    from Cons.IH [OF this Cons.prems(2)] show ?thesis by auto
  next
    case False
    with Cons.prems obtain q0 qs0 where q0: "parse_lines tx (block_lines tx b) = Inr q0"
      and qs0: "parse_blocks tx bs = Inr qs0"
      and qs: "qs = (if has_required q0 then q0 # qs0 else qs0)"
      by (auto split: sum.splits)
    show ?thesis
    proof (cases "q \<in> set qs0")
      case True
      from Cons.IH [OF qs0 True] show ?thesis by auto
    next
      case nin: False
      with qs Cons.prems(2) have "q = q0 \<and> has_required q0"
        by (auto split: if_splits)
      with q0 False show ?thesis by auto
    qed
  qed
qed

lemma parse_blocks_complete:
  "parse_blocks tx bs = Inr qs \<Longrightarrow> b \<in> set bs \<Longrightarrow> py_strip tx b \<noteq> [] \<Longrightarrow>
     6 \<le> length (block_lines tx b) \<Longrightarrow>
     \<exists>q. parse_lines tx (block_lines tx b) = Inr q \<and> (has_required q \<longrightarrow> q \<in> set qs)"
proof (induction bs arbitrary: qs)
  case Nil
  then show ?case by simp
next
  case (Cons c bs)
  show ?case
  proof (cases "py_strip tx c = [] \<or> length (block_lines tx c) < 6")
    case True
    with Cons.prems have r: "parse_blocks tx bs = Inr qs" and "b \<in> set bs"
      by (auto split: if_splits)
    from Cons.IH [OF r this(2) Cons.prems(3,4)] show ?thesis .
  next
    case False
    with Cons.prems(1) obtain q0 qs0 where q0: "parse_lines tx (block_lines tx c) = Inr q0"
      and qs0: "parse_blocks tx bs = Inr qs0"
      and qs: "qs = (if has_required q0 then q0 # qs0 else qs0)"
      by (auto split: sum.splits)
    show ?thesis
    proof (cases "b = c")
      case True
      with q0 qs show ?thesis by auto
    next
      case False
      with Cons.prems(2) have "b \<in> set bs" by simp
      from Cons.IH [OF qs0 this Cons.prems(3,4)] qs show ?thesis by auto
    qed
  qed
qed

lemma block_lines_blank: "py_strip tx b = [] \<Longrightarrow> block_lines tx b = []"
proof -
  assume b: "py_strip tx b = []"
  have s: "py_split NL [] = [[]]"
    by (subst py_split.simps) (simp add: NL_def)
  have "py_strip tx [] = []" by (simp add: py_strip_def)
  with b s show ?thesis by (simp add: block_lines_def)
qed

section \<open>Facts about the evaluator, the store and the policy\<close>

lemma grade_closed:
  "grade tx i qs ua sc rs =
     (sc + int (length (filter is_correct (map2 (result_entry tx ua) [i..<i + length qs] qs))),
      rs @ map2 (result_entry tx ua) [i..<i + length qs] qs)"
proof (induction qs arbitrary: i sc rs)
  case Nil
  show ?case by simp
next
  case (Cons q qs)
  have u: "[i..<i + length (q # qs)] = i # [Suc i..<Suc i + length qs]"
    by (subst upt_rec) simp
  show ?case
    unfolding u
    by (simp add: Cons.IH Let_def evaluate_answer_def result_entry_def answer_of_def)
qed

lemma file_data_load [simp]: "file_data (snd (load_user_progress u st)) = file_data st"
  by (simp add: load_user_progress_def file_data_def split: option.splits)

lemma file_data_save [simp]:
  "file_data (save_user_progress u p st) = (file_data st)(u \<mapsto> p)"
  by (simp add: save_user_progress_def file_data_def)

lemma fst_load:
  "fst (load_user_progress u st) =
     (case file_data st u of None \<Rightarrow> default_progress | Some p \<Rightarrow> p)"
  by (simp add: load_user_progress_def split: option.splits)

lemma slice_last_n:
  "1 \<le> w \<Longrightarrow> py_slice_from H (- int w) = last_n (min w (length H)) H"
  by (auto simp: py_slice_from_def last_n_def max_def min_def
      intro: arg_cong [where f = "\<lambda>k. drop k H"])

lemma calculate_difficulty_policy:
  "1 \<le> w \<Longrightarrow> calculate_difficulty ar H (int w) = Inr (difficulty_policy ar H w)"
proof (cases "H = []")
  case True
  then show ?thesis by (simp add: calculate_difficulty_def difficulty_policy_def)
next
  case False
  assume w: "1 \<le> w"
  from False have "0 < length H" by simp
  with w have "length (last_n (min w (length H)) H) \<noteq> 0"
    by (simp add: last_n_def min_def)
  with False w show ?thesis
    by (simp add: calculate_difficulty_def difficulty_policy_def slice_last_n Let_def)
qed

lemma calculate_difficulty_three: "\<exists>d. calculate_difficulty ar H 3 = Inr d"
  using calculate_difficulty_policy [of 3 ar H] by simp

lemma add_score_appends:
  assumes "tot \<noteq> 0" and "int_truediv ar sc tot = Some r"
  shows "\<exists>p2. add_score ar now tp sc tot p0 = Inr p2 \<and>
     quiz_scores p2 = quiz_scores p0 @
       [\<lparr>topic = tp, score = sc, total = tot, percentage = times_int ar r 100,
         timestamp = now\<rparr>]"
  using assms by (simp add: add_score_def py_truediv_def Let_def)

lemma update_appends:
  assumes "tot \<noteq> 0" and "int_truediv ar sc tot = Some r"
  shows "\<exists>p. fst (update_quiz_score ar now u tp sc tot st) = Inr p \<and>
       file_data (snd (update_quiz_score ar now u tp sc tot st)) u = Some p \<and>
       quiz_scores p = quiz_scores (fst (load_user_progress u st)) @
         [\<lparr>topic = tp, score = sc, total = tot, percentage = times_int ar r 100,
           timestamp = now\<rparr>]"
    and "\<exists>p. fst (engine_update_quiz_score ar now u tp sc tot st) = Inr p \<and>
       file_data (snd (engine_update_quiz_score ar now u tp sc tot st)) u = Some p \<and>
       quiz_scores p = quiz_scores (fst (load_user_progress u st)) @
         [\<lparr>topic = tp, score = sc, total = tot, percentage = times_int ar r 100,
           timestamp = now\<rparr>]"
proof -
  obtain p0 st1 where l: "load_user_progress u st = (p0, st1)"
    by (cases "load_user_progress u st")
  from add_score_appends [OF assms, of now tp p0]
  obtain p2 where a: "add_score ar now tp sc tot p0 = Inr p2"
    and q: "quiz_scores p2 = quiz_scores p0 @
       [\<lparr>topic = tp, score = sc, total = tot, percentage = times_int ar r 100,
         timestamp = now\<rparr>]"
    by blast
  obtain d where d: "calculate_difficulty ar (quiz_scores p2) 3 = Inr d"
    using calculate_difficulty_three by blast
  from l a d q
  show "\<exists>p. fst (update_quiz_score ar now u tp sc tot st) = Inr p \<and>
       file_data (snd (update_quiz_score ar now u tp sc tot st)) u = Some p \<and>
       quiz_scores p = quiz_scores (fst (load_user_progress u st)) @
         [\<lparr>topic = tp, score = sc, total = tot, percentage = times_int ar r 100,
           timestamp = now\<rparr>]"
    by (simp add: update_quiz_score_def Let_def)
  from l a d q
  show "\<exists>p. fst (engine_update_quiz_score ar now u tp sc tot st) = Inr p \<and>
       file_data (snd (engine_update_quiz_score ar now u tp sc tot st)) u = Some p \<and>
       quiz_scores p = quiz_scores (fst (load_user_progress u st)) @
         [\<lparr>topic = tp, score = sc, total = tot, percentage = times_int ar r 100,
           timestamp = now\<rparr>]"
    by (simp add: engine_update_quiz_score_def RECENT_SCORES_COUNT_def Let_def)
qed

lemmas run_update =
  update_quiz_score_def engine_update_quiz_score_def add_score_def py_truediv_def
  calculate_difficulty_def py_slice_from_def exact_arith_def load_user_progress_def
  save_user_progress_def file_data_def default_progress_def maths_progress_def
  RECENT_SCORES_COUNT_def Let_def

lemma update_zero_total_raises:
  \<comment> \<open>the division of the update is not guarded, unlike that of \<open>evaluate_quiz\<close>\<close>
  "fst (update_quiz_score ar now user_id tp sc 0 st) = Inl ZeroDivisionError \<and>
   fst (engine_update_quiz_score ar now user_id tp sc 0 st) = Inl ZeroDivisionError"
  by (simp add: update_quiz_score_def engine_update_quiz_score_def add_score_def py_truediv_def
      split: prod.splits)

section \<open>The claims\<close>

subsection \<open>The quiz parser\<close>

text \<open>
  Claim C1, as stated: every question that the parser returns has its \<open>correct\<close> label
  among the keys of its \<open>options\<close>, two options or more, and a non-empty text. The parser
  only tests that the three fields are not empty: a block of six lines with one option
  and the label Z is returned.
\<close>

theorem parse_quiz_invariant_counterexample:
  "parse_quiz latin1_tables stray_block = Inr [stray_question] \<and>
   \<not> quiz_question_invariant stray_question"
proof -
  have "parse_quiz latin1_tables stray_block = Inr [stray_question]"
    by code_simp
  moreover have "\<not> quiz_question_invariant stray_question"
    by (simp add: quiz_question_invariant_def stray_question_def)
  ultimately show ?thesis by simp
qed

text \<open>
  Claim C1, amended: every question that the parser returns has a non-empty text, one
  option or more, all keyed by A, B, C or D, and a non-empty \<open>correct\<close> label.
\<close>

theorem parse_quiz_required:
  "parse_quiz tx text = Inr qs \<Longrightarrow>
     \<forall>q\<in>set qs. question q \<noteq> [] \<and> options q \<noteq> [] \<and> correct q \<noteq> [] \<and>
       fst ` set (options q) \<subseteq> {str ''A'', str ''B'', str ''C'', str ''D''}"
proof
  fix q
  assume r: "parse_quiz tx text = Inr qs" and q: "q \<in> set qs"
  from r have "parse_blocks tx (py_split (str ''---'') text) = Inr qs"
    by (simp add: parse_quiz_def)
  from parse_blocks_sound [OF this q] obtain b where "has_required q"
    and "parse_lines tx (block_lines tx b) = Inr q" by blast
  with parse_lines_fields(3) [of tx "block_lines tx b" q]
  show "question q \<noteq> [] \<and> options q \<noteq> [] \<and> correct q \<noteq> [] \<and>
       fst ` set (options q) \<subseteq> {str ''A'', str ''B'', str ''C'', str ''D''}"
    by (simp add: has_required_def)
qed

theorem parse_quiz_required_witness:
  "parse_quiz latin1_tables full_block = Inr [full_question] \<and>
   question full_question \<noteq> [] \<and> options full_question \<noteq> [] \<and>
   correct full_question \<noteq> [] \<and>
   fst ` set (options full_question) \<subseteq> {str ''A'', str ''B'', str ''C'', str ''D''}"
proof -
  have r: "parse_quiz latin1_tables full_block = Inr [full_question]"
    by code_simp
  from r parse_quiz_required [OF r] show ?thesis by simp
qed

text \<open>
  Claim C2: the parser returns a sequence for every input and never raises, also when a
  correct-answer line has nothing after its separator. On such a line the source indexes
  the empty text (\<open>correct_text[0]\<close>) before the test of the required fields, and the
  call ends in IndexError.
\<close>

theorem parse_quiz_empty_correct_raises:
  "parse_quiz latin1_tables empty_correct_block = Inl IndexError"
  by code_simp

text \<open>
  Claim C6, as stated: a block of one question line, two option lines and one
  correct-answer line whose letter is one of the options is returned. The source skips
  every block of fewer than six non-blank lines.
\<close>

theorem parse_quiz_short_block_dropped:
  "parse_quiz latin1_tables short_block = Inr []"
  by code_simp

text \<open>
  Claim C6, amended: the least block has six non-blank lines. When the parser returns, a
  block of six non-blank lines or more is among the questions returned, with the text
  found by the first loop, provided that this text is not empty (the first line of the
  block that starts with Q has no colon, or has text other than blanks after its first
  colon), that a line starts with A), B), C) or D), and that a line starts with
  \<open>Correct:\<close>. The case mapping sends no code point to the empty text.
\<close>

theorem parse_quiz_keeps_block:
  assumes "\<And>c. upper tx c \<noteq> []"
    and "parse_quiz tx text = Inr qs"
    and "block \<in> set (py_split (str ''---'') text)"
    and "6 \<le> length (block_lines tx block)"
    and "question_text tx (block_lines tx block) = Inr t" and "t \<noteq> []"
    and "\<exists>l\<in>set (block_lines tx block). is_option_line l"
    and "\<exists>l\<in>set (block_lines tx block). startswith l (str ''Correct:'')"
  shows "\<exists>q\<in>set qs. parse_lines tx (block_lines tx block) = Inr q \<and> question q = t"
proof -
  from assms(2) have r: "parse_blocks tx (py_split (str ''---'') text) = Inr qs"
    by (simp add: parse_quiz_def)
  from assms(4) have "py_strip tx block \<noteq> []"
    using block_lines_blank [of tx block] by auto
  from parse_blocks_complete [OF r assms(3) this assms(4)]
  obtain q where q: "parse_lines tx (block_lines tx block) = Inr q"
    and k: "has_required q \<longrightarrow> q \<in> set qs" by blast
  from parse_lines_fields(1,2) [OF q] assms(5-7) have "question q = t"
    and "question q \<noteq> []" and "options q \<noteq> []" by auto
  moreover from parse_lines_fields(4) [OF q assms(1) assms(8)] have "correct q \<noteq> []" .
  ultimately have "has_required q" and "question q = t"
    by (simp_all add: has_required_def)
  with q k show ?thesis by auto
qed

theorem parse_quiz_keeps_block_witness:
  "(\<forall>c. upper latin1_tables c \<noteq> []) \<and>
   parse_quiz latin1_tables full_block = Inr [full_question] \<and>
   full_block \<in> set (py_split (str ''---'') full_block) \<and>
   6 \<le> length (block_lines latin1_tables full_block) \<and>
   question_text latin1_tables (block_lines latin1_tables full_block) = Inr (str ''What is 2 + 2?'') \<and>
   str ''What is 2 + 2?'' \<noteq> [] \<and>
   (\<exists>l\<in>set (block_lines latin1_tables full_block). is_option_line l) \<and>
   (\<exists>l\<in>set (block_lines latin1_tables full_block). startswith l (str ''Correct:'')) \<and>
   (\<exists>q\<in>set [full_question].
      parse_lines latin1_tables (block_lines latin1_tables full_block) = Inr q \<and>
      question q = str ''What is 2 + 2?'')"
proof -
  have h0: "upper latin1_tables c \<noteq> []" for c
    by (simp add: latin1_tables_def latin1_upper_def)
  have h1: "parse_quiz latin1_tables full_block = Inr [full_question]" by code_simp
  have "py_split (str ''---'') full_block = [full_block]" by code_simp
  then have h2: "full_block \<in> set (py_split (str ''---'') full_block)" by simp
  have h3: "6 \<le> length (block_lines latin1_tables full_block)" by code_simp
  have h4: "question_text latin1_tables (block_lines latin1_tables full_block) =
      Inr (str ''What is 2 + 2?'')" by code_simp
  have h5: "str ''What is 2 + 2?'' \<noteq> []" by (simp add: str_def)
  have h6: "\<exists>l\<in>set (block_lines latin1_tables full_block). is_option_line l" by code_simp
  have h7: "\<exists>l\<in>set (block_lines latin1_tables full_block). startswith l (str ''Correct:'')"
    by code_simp
  from parse_quiz_keeps_block [OF h0 h1 h2 h3 h4 h5 h6 h7] h0 h1 h2 h3 h4 h5 h6 h7
  show ?thesis by blast
qed

subsection \<open>The quiz evaluator\<close>

text \<open>
  Claim C5: for every list of questions, each with a \<open>correct\<close> label, and every map of
  answers, the evaluator returns without raising, with one result for each question and
  the number of results marked correct as the score. A submitted label is marked correct
  exactly when it equals the \<open>correct\<close> label of the question but for case, that is when
  the two have the same upper-case form, which for two ASCII texts is to be equal but for
  the case of the letters a to z; any other label is marked incorrect; an index with no
  submitted answer is marked incorrect. The arithmetic gives a float for every quotient
  between 0 and 1, and the case mapping sends no code point to the empty text.
\<close>

theorem evaluate_quiz_grading:
  assumes "\<And>a b. 0 \<le> a \<Longrightarrow> a \<le> b \<Longrightarrow> 0 < b \<Longrightarrow> int_truediv ar a b \<noteq> None"
    and "\<And>c. upper tx c \<noteq> []"
    and "\<forall>q\<in>set questions. correct q \<noteq> []"
  shows "\<exists>r. evaluate_quiz tx ar questions user_answers = Inr r \<and>
     length (results r) = length questions \<and>
     result_score r = int (length (filter is_correct (results r))) \<and>
     (\<forall>i<length questions.
        (case user_answers (int i) of
           None \<Rightarrow> \<not> is_correct (results r ! i)
         | Some a \<Rightarrow>
             is_correct (results r ! i) = same_upper tx a (correct (questions ! i)) \<and>
             (ascii_case tx \<and> is_ascii a \<and> is_ascii (correct (questions ! i)) \<longrightarrow>
                is_correct (results r ! i) = eq_ignore_case a (correct (questions ! i)))))"
proof -
  let ?rs = "map2 (result_entry tx user_answers) [0..<length questions] questions"
  let ?sc = "int (length (filter is_correct ?rs))"
  have g: "grade tx 0 questions user_answers 0 [] = (?sc, ?rs)"
    by (simp add: grade_closed)
  have "length (filter is_correct ?rs) \<le> length ?rs" by (rule length_filter_le)
  then have le: "?sc \<le> int (length questions)" by simp
  have "\<exists>pc. (if questions \<noteq> [] then
                 (case py_truediv ar ?sc (int (length questions)) of
                    Inl e \<Rightarrow> Inl e
                  | Inr r \<Rightarrow> Inr (times_int ar r 100))
               else Inr (float_of_int ar 0)) = Inr pc"
  proof (cases "questions = []")
    case True
    then show ?thesis by simp
  next
    case False
    then have "0 < int (length questions)" by simp
    from assms(1) [OF _ le this] obtain r
      where "int_truediv ar ?sc (int (length questions)) = Some r" by auto
    with False show ?thesis by (simp add: py_truediv_def)
  qed
  then obtain pc where pc: "(if questions \<noteq> [] then
                 (case py_truediv ar ?sc (int (length questions)) of
                    Inl e \<Rightarrow> Inl e
                  | Inr r \<Rightarrow> Inr (times_int ar r 100))
               else Inr (float_of_int ar 0)) = Inr pc"
    by blast
  have r: "evaluate_quiz tx ar questions user_answers =
      Inr \<lparr>result_score = ?sc, result_total = int (length questions),
           result_percentage = pc, results = ?rs\<rparr>"
    by (simp only: evaluate_quiz_def g prod.case pc sum.case)
  have e: "is_correct (?rs ! i) =
      same_upper tx (answer_of user_answers i) (correct (questions ! i))"
    if "i < length questions" for i
    using that by (simp add: result_entry_def same_upper_def)
  have m: "\<not> same_upper tx (answer_of user_answers i) (correct (questions ! i))"
    if "i < length questions" "user_answers (int i) = None" for i
  proof -
    from that(1) assms(3) have "correct (questions ! i) \<noteq> []" by simp
    from py_upper_nonempty [OF assms(2) this] that(2) show ?thesis
      by (simp add: same_upper_def answer_of_def py_upper_def)
  qed
  let ?R = "\<lparr>result_score = ?sc, result_total = int (length questions),
             result_percentage = pc, results = ?rs\<rparr>"
  have k: "(case user_answers (int i) of
           None \<Rightarrow> \<not> is_correct (results ?R ! i)
         | Some a \<Rightarrow>
             is_correct (results ?R ! i) = same_upper tx a (correct (questions ! i)) \<and>
             (ascii_case tx \<and> is_ascii a \<and> is_ascii (correct (questions ! i)) \<longrightarrow>
                is_correct (results ?R ! i) = eq_ignore_case a (correct (questions ! i))))"
    if i: "i < length questions" for i
  proof (cases "user_answers (int i)")
    case None
    with e [OF i] m [OF i] show ?thesis by simp
  next
    case (Some a)
    then have "answer_of user_answers i = a" by (simp add: answer_of_def)
    with e [OF i] Some show ?thesis by (auto simp: same_upper_ascii)
  qed
  show ?thesis
  proof (intro exI conjI allI impI)
    show "evaluate_quiz tx ar questions user_answers = Inr ?R" by (rule r)
    show "length (results ?R) = length questions" by simp
    show "result_score ?R = int (length (filter is_correct (results ?R)))" by simp
    fix i assume "i < length questions"
    then show "(case user_answers (int i) of
           None \<Rightarrow> \<not> is_correct (results ?R ! i)
         | Some a \<Rightarrow>
             is_correct (results ?R ! i) = same_upper tx a (correct (questions ! i)) \<and>
             (ascii_case tx \<and> is_ascii a \<and> is_ascii (correct (questions ! i)) \<longrightarrow>
                is_correct (results ?R ! i) = eq_ignore_case a (correct (questions ! i))))"
      by (rule k)
  qed
qed

theorem evaluate_quiz_grading_witness:
  "(\<forall>a b. int_truediv exact_arith a b \<noteq> None) \<and>
   (\<forall>c. upper latin1_tables c \<noteq> []) \<and>
   correct full_question \<noteq> [] \<and>
   (\<exists>r. evaluate_quiz latin1_tables exact_arith [full_question, full_question]
           [0 \<mapsto> str ''b''] = Inr r \<and>
      length (results r) = 2 \<and> is_correct (results r ! 0) \<and> \<not> is_correct (results r ! 1))"
proof -
  let ?qs = "[full_question, full_question]" and ?ua = "[0 \<mapsto> str ''b''] :: int \<rightharpoonup> pystr"
  have h1: "int_truediv exact_arith a b \<noteq> None" for a b by (simp add: exact_arith_def)
  have h2: "upper latin1_tables c \<noteq> []" for c
    by (simp add: latin1_tables_def latin1_upper_def)
  have c: "correct full_question = str ''B''" by (simp add: full_question_def)
  then have h3: "\<forall>q\<in>set ?qs. correct q \<noteq> []" by (simp add: str_def)
  from evaluate_quiz_grading [of exact_arith latin1_tables ?qs ?ua, OF h1 h2 h3]
  obtain r where r: "evaluate_quiz latin1_tables exact_arith ?qs ?ua = Inr r"
    and n: "length (results r) = length ?qs"
    and g: "\<forall>i<length ?qs.
        (case ?ua (int i) of
           None \<Rightarrow> \<not> is_correct (results r ! i)
         | Some a \<Rightarrow>
             is_correct (results r ! i) = same_upper latin1_tables a (correct (?qs ! i)) \<and>
             (ascii_case latin1_tables \<and> is_ascii a \<and> is_ascii (correct (?qs ! i)) \<longrightarrow>
                is_correct (results r ! i) = eq_ignore_case a (correct (?qs ! i))))"
    by blast
  have l0: "(0::nat) < length ?qs" and l1: "(1::nat) < length ?qs" by simp_all
  have a: "ascii_case latin1_tables \<and> is_ascii (str ''b'') \<and> is_ascii (str ''B'')"
    and e: "eq_ignore_case (str ''b'') (str ''B'')" by code_simp+
  have s0: "?ua (int 0) = Some (str ''b'')" and s1: "?ua (int 1) = None" by simp_all
  from g l0 have "(case ?ua (int 0) of
           None \<Rightarrow> \<not> is_correct (results r ! 0)
         | Some a \<Rightarrow>
             is_correct (results r ! 0) = same_upper latin1_tables a (correct (?qs ! 0)) \<and>
             (ascii_case latin1_tables \<and> is_ascii a \<and> is_ascii (correct (?qs ! 0)) \<longrightarrow>
                is_correct (results r ! 0) = eq_ignore_case a (correct (?qs ! 0))))"
    by blast
  then have "ascii_case latin1_tables \<and> is_ascii (str ''b'') \<and> is_ascii (correct (?qs ! 0)) \<longrightarrow>
      is_correct (results r ! 0) = eq_ignore_case (str ''b'') (correct (?qs ! 0))"
    unfolding s0 option.case by blast
  with a e c have c0: "is_correct (results r ! 0)" by simp
  from g l1 have "(case ?ua (int 1) of
           None \<Rightarrow> \<not> is_correct (results r ! 1)
         | Some a \<Rightarrow>
             is_correct (results r ! 1) = same_upper latin1_tables a (correct (?qs ! 1)) \<and>
             (ascii_case latin1_tables \<and> is_ascii a \<and> is_ascii (correct (?qs ! 1)) \<longrightarrow>
                is_correct (results r ! 1) = eq_ignore_case a (correct (?qs ! 1))))"
    by blast
  then have c1: "\<not> is_correct (results r ! 1)"
    unfolding s1 option.case .
  from h1 h2 h3 r n c0 c1 show ?thesis by simp
qed

text \<open>
  Claim C7: evaluating a quiz with no question returns the score 0, the total 0 and the
  percentage 0; the division by the number of questions is guarded.
\<close>

theorem evaluate_quiz_no_questions:
  "evaluate_quiz tx ar [] user_answers =
     Inr \<lparr>result_score = 0, result_total = 0, result_percentage = float_of_int ar 0,
          results = []\<rparr>"
  by (simp add: evaluate_quiz_def)

subsection \<open>The difficulty policy\<close>

text \<open>
  Claim C4, as stated: for every history and every window \<open>w\<close> the result depends only on
  the last \<open>min w (length H)\<close> records. With the window 0 the slice \<open>quiz_scores[-0:]\<close>
  is the whole history: two histories with the same (empty) last 0 records get different
  tiers.
\<close>

theorem calculate_difficulty_window_zero:
  "last_n (min 0 (length [pct 100])) [pct 100] = last_n (min 0 (length [pct 0])) [pct 0] \<and>
   calculate_difficulty exact_arith [pct 100] 0 = Inr ''advanced'' \<and>
   calculate_difficulty exact_arith [pct 0] 0 = Inr ''beginner''"
  by (simp add: last_n_def calculate_difficulty_def py_slice_from_def exact_arith_def pct_def)

text \<open>
  Claim C4, amended: for every history \<open>H\<close> and every window \<open>w\<close> of 1 or more, the policy
  returns beginner on the empty history, and otherwise advanced if the mean of
  \<open>percentage\<close> over the last \<open>min w (length H)\<close> records, as the program computes it, is
  85 or more, else intermediate if it is 70 or more, else beginner; the result is the
  same for two histories with the same last \<open>min w (length H)\<close> records.
\<close>

theorem calculate_difficulty_window:
  "1 \<le> w \<Longrightarrow>
     calculate_difficulty ar H (int w) = Inr (difficulty_policy ar H w) \<and>
     (\<forall>H'. last_n (min w (length H')) H' = last_n (min w (length H)) H \<longrightarrow>
        calculate_difficulty ar H' (int w) = calculate_difficulty ar H (int w))"
proof (intro conjI allI impI)
  assume w: "1 \<le> w"
  show "calculate_difficulty ar H (int w) = Inr (difficulty_policy ar H w)"
    using w by (rule calculate_difficulty_policy)
  fix H' :: "'a quiz_record list"
  assume same: "last_n (min w (length H')) H' = last_n (min w (length H)) H"
  have len: "length (last_n (min w (length K)) K) = min w (length K)"
    for K :: "'a quiz_record list"
    by (simp add: last_n_def)
  from same have "min w (length H') = min w (length H)"
    using len [of H] len [of H'] by simp
  with w have "H' = [] \<longleftrightarrow> H = []"
    by (auto simp: min_def split: if_splits)
  with same have "difficulty_policy ar H' w = difficulty_policy ar H w"
    by (simp add: difficulty_policy_def)
  then show "calculate_difficulty ar H' (int w) = calculate_difficulty ar H (int w)"
    using w by (simp add: calculate_difficulty_policy)
qed

theorem calculate_difficulty_window_witness:
  "(1::nat) \<le> 3 \<and>
   calculate_difficulty exact_arith [pct 50, pct 90, pct 95, pct 88] 3 = Inr ''advanced'' \<and>
   calculate_difficulty exact_arith [pct 90, pct 95, pct 88] 3 = Inr ''advanced''"
proof -
  have h: "(1::nat) \<le> 3" by simp
  have p: "difficulty_policy exact_arith [pct 50, pct 90, pct 95, pct 88] 3 = ''advanced''"
    by (simp add: difficulty_policy_def last_n_def exact_arith_def pct_def)
  have l: "last_n (min 3 (length [pct 90, pct 95, pct 88])) [pct 90, pct 95, pct 88] =
      last_n (min 3 (length [pct 50, pct 90, pct 95, pct 88])) [pct 50, pct 90, pct 95, pct 88]"
    by (simp add: last_n_def)
  from calculate_difficulty_window [OF h, of exact_arith "[pct 50, pct 90, pct 95, pct 88]"] p l
  show ?thesis by auto
qed

subsection \<open>The score update\<close>

text \<open>
  Claim C3, as stated: a record whose \<open>total\<close> is 0 or less is rejected before any write
  and never stored. Neither update function tests \<open>total\<close>: with the score 1 and the
  total -2 the record is appended and saved.
\<close>

theorem update_negative_total_persisted:
  "fst (load_user_progress ''u''
          (snd (update_quiz_score exact_arith ''t0'' ''u'' ''maths'' 1 (- 2) None))) =
     maths_progress 1 (- 2) (- 50) ''beginner''"
  by (simp add: run_update)

text \<open>
  Claim C3, amended: the update functions do not validate \<open>total\<close>. An update with a
  negative total, whose quotient \<open>score / total\<close> is a float, succeeds in both update
  functions: the record is appended to the history of the user with that total and the
  percentage computed from it, and the result is saved.
\<close>

theorem update_accepts_negative_total:
  assumes "tot < 0" and "int_truediv ar sc tot = Some r"
  shows "(\<exists>p. fst (update_quiz_score ar now user_id tp sc tot st) = Inr p \<and>
            file_data (snd (update_quiz_score ar now user_id tp sc tot st)) user_id = Some p \<and>
            quiz_scores p = quiz_scores (fst (load_user_progress user_id st)) @
              [\<lparr>topic = tp, score = sc, total = tot, percentage = times_int ar r 100,
                timestamp = now\<rparr>]) \<and>
         (\<exists>p. fst (engine_update_quiz_score ar now user_id tp sc tot st) = Inr p \<and>
            file_data (snd (engine_update_quiz_score ar now user_id tp sc tot st)) user_id =
              Some p \<and>
            quiz_scores p = quiz_scores (fst (load_user_progress user_id st)) @
              [\<lparr>topic = tp, score = sc, total = tot, percentage = times_int ar r 100,
                timestamp = now\<rparr>])"
proof -
  from assms(1) have "tot \<noteq> 0" by simp
  from update_appends [OF this assms(2)] show ?thesis by blast
qed

theorem update_accepts_negative_total_witness:
  "(- 2 :: int) < 0 \<and> int_truediv exact_arith 1 (- 2) = Some (- 1 / 2) \<and>
   (\<exists>p. fst (update_quiz_score exact_arith ''t0'' ''u'' ''maths'' 1 (- 2) None) = Inr p \<and>
      quiz_scores p =
        [\<lparr>topic = ''maths'', score = 1, total = - 2, percentage = - 50, timestamp = ''t0''\<rparr>])"
proof -
  have h1: "(- 2 :: int) < 0" by simp
  have h2: "int_truediv exact_arith 1 (- 2) = Some (- 1 / 2)"
    by (simp add: exact_arith_def)
  have l: "quiz_scores (fst (load_user_progress ''u'' (None :: rat store))) = []"
    by (simp add: load_user_progress_def file_data_def default_progress_def)
  have t: "times_int exact_arith (- 1 / 2) 100 = - 50" by (simp add: exact_arith_def)
  from update_accepts_negative_total
    [OF h1 h2, of "''t0''" "''u''" "''maths''" "None :: rat store"] l t h1 h2
  show ?thesis by auto
qed

text \<open>
  Claim C8: after an update of the quiz scores the stored \<open>current_difficulty\<close> is what the
  policy computes over the updated \<open>quiz_scores\<close> of the record, with the window 3 (the
  default of \<open>calculate_difficulty\<close> and the value of the configuration); and an update
  with a total other than 0 whose quotient \<open>score / total\<close> is a float does succeed.
\<close>

theorem update_recomputes_difficulty:
  "(tot \<noteq> 0 \<and> int_truediv ar sc tot \<noteq> None \<longrightarrow>
      (\<exists>q. fst (update_quiz_score ar now user_id tp sc tot st) = Inr q) \<and>
      (\<exists>q. fst (engine_update_quiz_score ar now user_id tp sc tot st) = Inr q)) \<and>
   (fst (update_quiz_score ar now user_id tp sc tot st) = Inr p \<longrightarrow>
      fst (load_user_progress user_id (snd (update_quiz_score ar now user_id tp sc tot st))) = p \<and>
      calculate_difficulty ar (quiz_scores p) 3 = Inr (current_difficulty p)) \<and>
   (fst (engine_update_quiz_score ar now user_id tp sc tot st) = Inr p \<longrightarrow>
      fst (load_user_progress user_id
             (snd (engine_update_quiz_score ar now user_id tp sc tot st))) = p \<and>
      calculate_difficulty ar (quiz_scores p) RECENT_SCORES_COUNT = Inr (current_difficulty p) \<and>
      RECENT_SCORES_COUNT = 3)"
proof (intro conjI impI)
  assume a: "tot \<noteq> 0 \<and> int_truediv ar sc tot \<noteq> None"
  then obtain r where r: "int_truediv ar sc tot = Some r" by auto
  from a have t: "tot \<noteq> 0" by simp
  from update_appends(1) [OF t r]
  show "\<exists>q. fst (update_quiz_score ar now user_id tp sc tot st) = Inr q" by blast
  from update_appends(2) [OF t r]
  show "\<exists>q. fst (engine_update_quiz_score ar now user_id tp sc tot st) = Inr q" by blast
next
  assume "fst (update_quiz_score ar now user_id tp sc tot st) = Inr p"
  then show "fst (load_user_progress user_id
        (snd (update_quiz_score ar now user_id tp sc tot st))) = p"
    and "calculate_difficulty ar (quiz_scores p) 3 = Inr (current_difficulty p)"
    by (auto simp: update_quiz_score_def fst_load Let_def split: prod.splits sum.splits)
next
  assume "fst (engine_update_quiz_score ar now user_id tp sc tot st) = Inr p"
  then show "fst (load_user_progress user_id
        (snd (engine_update_quiz_score ar now user_id tp sc tot st))) = p"
    and "calculate_difficulty ar (quiz_scores p) RECENT_SCORES_COUNT = Inr (current_difficulty p)"
    by (auto simp: engine_update_quiz_score_def fst_load Let_def split: prod.splits sum.splits)
next
  show "RECENT_SCORES_COUNT = 3" by (simp add: RECENT_SCORES_COUNT_def)
qed

theorem update_recomputes_difficulty_witness:
  "(10::int) \<noteq> 0 \<and> int_truediv exact_arith 9 10 \<noteq> None \<and>
   fst (update_quiz_score exact_arith ''t0'' ''u'' ''maths'' 9 10 None) =
     Inr (maths_progress 9 10 90 ''advanced'') \<and>
   fst (engine_update_quiz_score exact_arith ''t0'' ''u'' ''maths'' 9 10 None) =
     Inr (maths_progress 9 10 90 ''advanced'') \<and>
   fst (load_user_progress ''u''
          (snd (update_quiz_score exact_arith ''t0'' ''u'' ''maths'' 9 10 None))) =
     maths_progress 9 10 90 ''advanced'' \<and>
   calculate_difficulty exact_arith (quiz_scores (maths_progress 9 10 90 ''advanced'')) 3 =
     Inr ''advanced''"
proof -
  let ?p = "maths_progress 9 10 90 ''advanced''"
  have n: "int_truediv exact_arith 9 10 \<noteq> None" by (simp add: exact_arith_def)
  have u: "fst (update_quiz_score exact_arith ''t0'' ''u'' ''maths'' 9 10 None) = Inr ?p"
    by (simp add: run_update)
  have e: "fst (engine_update_quiz_score exact_arith ''t0'' ''u'' ''maths'' 9 10 None) = Inr ?p"
    by (simp add: run_update)
  have d: "current_difficulty ?p = ''advanced''"
    by (simp add: maths_progress_def)
  from update_recomputes_difficulty
    [of 10 exact_arith 9 "''t0''" "''u''" "''maths''" None ?p] n u e d
  show ?thesis by simp
qed

subsection \<open>The progress store\<close>

text \<open>
  Claim C9: for every user and every state of the store, a reset followed by a load
  gives the default record: no topic, no score, the difficulty beginner, the time 0.
\<close>

theorem reset_then_load:
  "fst (load_user_progress user_id (reset_progress user_id st)) =
     \<lparr>topics_studied = [], quiz_scores = [], current_difficulty = ''beginner'', total_time = 0\<rparr>"
  by (simp add: fst_load reset_progress_def)

text \<open>
  Claim C10: saving the progress of one user leaves the record that a load returns for
  every other user as it was.
\<close>

theorem save_leaves_others:
  "other_id \<noteq> user_id \<Longrightarrow>
     fst (load_user_progress other_id (save_user_progress user_id p st)) =
     fst (load_user_progress other_id st)"
  by (simp add: fst_load)

theorem save_leaves_others_witness:
  "''bob'' \<noteq> ''ann'' \<and>
   fst (load_user_progress ''bob''
          (save_user_progress ''ann'' (maths_progress 1 2 50 ''beginner'')
             (Some [''bob'' \<mapsto> maths_progress 9 10 90 ''advanced'']))) =
   maths_progress 9 10 90 ''advanced''"
proof -
  have h: "''bob'' \<noteq> ''ann''" by simp
  from h save_leaves_others [OF h, of "maths_progress 1 2 50 ''beginner''"
      "Some [''bob'' \<mapsto> maths_progress 9 10 90 ''advanced'']"]
  show ?thesis by (simp add: load_user_progress_def file_data_def)
qed

end
